theory Spec2Isabelle
  imports Complex_Main
begin

section \<open>Python values read from a worksheet\<close>

text \<open>
  The handlers of \<^verbatim>\<open>app/main.py\<close> receive worksheet cells as dynamically typed Python
  values. Strings are byte lists: text outside ASCII is its UTF-8 encoding, so the
  substring and prefix tests of the source keep their meaning. Whitespace and digits
  are the ASCII ones.
\<close>

datatype exc =
    IndexError
  | OverflowError
  | ValueError
  | TypeError string
  | IntegrityError string
  | LoadError string

datatype http_error = HTTPException nat string

datatype date = Date (year: int) (month: int) (day: int)

datatype datetime =
  DateTime (dt_date: date) (hour: nat) (minute: nat) (second: nat) (microsecond: nat)

datatype pyfloat = Fin rat | PInf | NInf | NaN

datatype pyval =
    PNone
  | PBool bool
  | PInt int
  | PFloat pyfloat
  | PStr string
  | PDateTime datetime
  | PDate date

text \<open>
  Library functions whose results are fixed outside this repository: \<^verbatim>\<open>float(s)\<close> on a
  string (\<open>None\<close> stands for \<^verbatim>\<open>ValueError\<close>), \<^verbatim>\<open>str(f)\<close> on a float, and the text
  the storage engine keeps when a float is bound to a text column.
\<close>

record pylib =
  float_str :: "string \<Rightarrow> pyfloat option"
  str_float :: "pyfloat \<Rightarrow> string"
  sql_float :: "pyfloat \<Rightarrow> string"

subsection \<open>Truthiness, \<^verbatim>\<open>or\<close>, \<^verbatim>\<open>any\<close>\<close>

fun truthy :: "pyval \<Rightarrow> bool" where
  "truthy PNone = False"
| "truthy (PBool b) = b"
| "truthy (PInt n) = (n \<noteq> 0)"
| "truthy (PFloat f) = (f \<noteq> Fin 0)"
| "truthy (PStr s) = (s \<noteq> [])"
| "truthy (PDateTime d) = True"
| "truthy (PDate d) = True"

definition py_or :: "pyval \<Rightarrow> pyval \<Rightarrow> pyval" where
  "py_or a b = (if truthy a then a else b)"

definition py_any :: "pyval list \<Rightarrow> bool" where
  "py_any row = list_ex truthy row"

definition idx :: "pyval list \<Rightarrow> nat \<Rightarrow> exc + pyval" where
  "idx row i = (if i < length row then Inr (row ! i) else Inl IndexError)"

subsection \<open>Decimal text\<close>

definition is_digit :: "char \<Rightarrow> bool" where
  "is_digit c = (48 \<le> (of_char c :: nat) \<and> (of_char c :: nat) \<le> 57)"

definition digit_val :: "char \<Rightarrow> nat" where
  "digit_val c = of_char c - 48"

definition digit_char :: "nat \<Rightarrow> char" where
  "digit_char n = char_of (48 + n)"

function nat_digits :: "nat \<Rightarrow> string" where
  "nat_digits n =
     (if n < 10 then [digit_char n] else nat_digits (n div 10) @ [digit_char (n mod 10)])"
  by pat_completeness auto
termination
  by (relation "measure id") auto

definition str_int :: "int \<Rightarrow> string" where
  "str_int n = (if n < 0 then CHR ''-'' # nat_digits (nat (- n)) else nat_digits (nat n))"

definition pad :: "nat \<Rightarrow> nat \<Rightarrow> string" where
  "pad w n = replicate (w - length (nat_digits n)) CHR ''0'' @ nat_digits n"

definition isoformat :: "date \<Rightarrow> string" where
  "isoformat d =
     pad 4 (nat (year d)) @ ''-'' @ pad 2 (nat (month d)) @ ''-'' @ pad 2 (nat (day d))"

definition str_datetime :: "datetime \<Rightarrow> string" where
  "str_datetime t =
     isoformat (dt_date t) @ '' '' @ pad 2 (hour t) @ '':'' @ pad 2 (minute t) @ '':''
       @ pad 2 (second t)
       @ (if microsecond t = 0 then [] else ''.'' @ pad 6 (microsecond t))"

fun py_str :: "pylib \<Rightarrow> pyval \<Rightarrow> string" where
  "py_str L PNone = ''None''"
| "py_str L (PBool b) = (if b then ''True'' else ''False'')"
| "py_str L (PInt n) = str_int n"
| "py_str L (PFloat f) = str_float L f"
| "py_str L (PStr s) = s"
| "py_str L (PDateTime t) = str_datetime t"
| "py_str L (PDate d) = isoformat d"

text \<open>The value the storage engine compares and stores for a text column.\<close>

fun bind_text :: "pylib \<Rightarrow> pyval \<Rightarrow> string option" where
  "bind_text L PNone = None"
| "bind_text L (PBool b) = Some (if b then ''1'' else ''0'')"
| "bind_text L (PInt n) = Some (str_int n)"
| "bind_text L (PFloat f) = Some (sql_float L f)"
| "bind_text L (PStr s) = Some s"
| "bind_text L (PDateTime t) = Some (str_datetime t)"
| "bind_text L (PDate d) = Some (isoformat d)"

subsection \<open>\<^verbatim>\<open>float(n)\<close> on an integer\<close>

text \<open>
  Python integers are unbounded; \<^verbatim>\<open>float\<close> rounds to 53 significant bits, ties to even,
  and raises \<^verbatim>\<open>OverflowError\<close> when the rounded value does not fit a double.
\<close>

fun bit_length :: "nat \<Rightarrow> nat" where
  "bit_length n = (if n = 0 then 0 else Suc (bit_length (n div 2)))"

declare bit_length.simps [simp del]

definition round53 :: "nat \<Rightarrow> nat" where
  "round53 m =
     (let e = bit_length m - 53;
          q = m div 2 ^ e;
          r = m mod 2 ^ e;
          q' = (if 2 * r > 2 ^ e \<or> (2 * r = 2 ^ e \<and> odd q) then q + 1 else q)
      in q' * 2 ^ e)"

definition float_of_int :: "int \<Rightarrow> exc + pyfloat" where
  "float_of_int n =
     (let v = round53 (nat \<bar>n\<bar>)
      in if 2 ^ 1024 \<le> v then Inl OverflowError
         else Inr (Fin (of_int (sgn n * int v))))"

subsection \<open>\<^verbatim>\<open>get_float_value\<close>\<close>

definition remove_commas :: "string \<Rightarrow> string" where
  "remove_commas s = filter (\<lambda>c. c \<noteq> CHR '','') s"

definition startswith :: "string \<Rightarrow> string \<Rightarrow> bool" where
  "startswith s p = (take (length p) s = p)"

definition get_float_value :: "pylib \<Rightarrow> pyval \<Rightarrow> exc + pyfloat" where
  "get_float_value L v =
     (if \<not> truthy v then Inr (Fin 0)
      else case v of
        PBool b \<Rightarrow> float_of_int (if b then 1 else 0)
      | PInt n \<Rightarrow> float_of_int n
      | PFloat f \<Rightarrow> Inr f
      | PStr s \<Rightarrow>
          (if startswith s ''='' then Inr (Fin 0)
           else case float_str L (remove_commas s) of
                  Some f \<Rightarrow> Inr f
                | None \<Rightarrow> Inr (Fin 0))
      | _ \<Rightarrow> Inr (Fin 0))"

section \<open>Date normalization of the ingestion routine\<close>

definition is_space :: "char \<Rightarrow> bool" where
  "is_space c = ((of_char c :: nat) \<in> {9, 10, 11, 12, 13, 28, 29, 30, 31, 32})"

definition strip :: "string \<Rightarrow> string" where
  "strip s = rev (dropWhile is_space (rev (dropWhile is_space s)))"

text \<open>\<^verbatim>\<open>s.split(c)\<close> for a one-character separator: never empty.\<close>

fun split_on :: "char \<Rightarrow> string \<Rightarrow> string list" where
  "split_on c [] = [[]]"
| "split_on c (x # xs) =
     (if x = c then [] # split_on c xs
      else (x # hd (split_on c xs)) # tl (split_on c xs))"

text \<open>
  \<^verbatim>\<open>int(s)\<close>: surrounding whitespace, an optional sign, decimal digits, single underscores
  between digits. \<open>None\<close> stands for \<^verbatim>\<open>ValueError\<close>.
\<close>

fun digits_value :: "nat \<Rightarrow> string \<Rightarrow> nat option" where
  "digits_value acc [] = Some acc"
| "digits_value acc [c] = (if is_digit c then Some (acc * 10 + digit_val c) else None)"
| "digits_value acc (c # d # cs) =
     (if is_digit c then digits_value (acc * 10 + digit_val c) (d # cs)
      else if c = CHR ''_'' \<and> is_digit d then digits_value acc (d # cs)
      else None)"

definition py_nat :: "string \<Rightarrow> nat option" where
  "py_nat s = (case s of [] \<Rightarrow> None
               | c # cs \<Rightarrow> if is_digit c then digits_value 0 s else None)"

definition py_int :: "string \<Rightarrow> int option" where
  "py_int s =
     (case strip s of
        [] \<Rightarrow> None
      | c # cs \<Rightarrow>
          if c = CHR ''-'' then map_option (\<lambda>n. - int n) (py_nat cs)
          else if c = CHR ''+'' then map_option int (py_nat cs)
          else map_option int (py_nat (c # cs)))"

definition is_leap :: "int \<Rightarrow> bool" where
  "is_leap y = (y mod 4 = 0 \<and> (y mod 100 \<noteq> 0 \<or> y mod 400 = 0))"

definition days_in_month :: "int \<Rightarrow> int \<Rightarrow> int" where
  "days_in_month y m =
     (if m = 2 then (if is_leap y then 29 else 28)
      else if m \<in> {4, 6, 9, 11} then 30 else 31)"

definition valid_date :: "date \<Rightarrow> bool" where
  "valid_date d =
     (1 \<le> year d \<and> year d \<le> 9999 \<and> 1 \<le> month d \<and> month d \<le> 12 \<and>
      1 \<le> day d \<and> day d \<le> days_in_month (year d) (month d))"

definition c_int :: "int \<Rightarrow> bool" where
  "c_int n = (- (2 ^ 31) \<le> n \<and> n < 2 ^ 31)"

text \<open>\<^verbatim>\<open>datetime(year, month, day).date()\<close>\<close>

definition mk_date :: "int \<Rightarrow> int \<Rightarrow> int \<Rightarrow> exc + date" where
  "mk_date y m d =
     (if \<not> (c_int y \<and> c_int m \<and> c_int d) then Inl OverflowError
      else if valid_date (Date y m d) then Inr (Date y m d)
      else Inl ValueError)"

text \<open>
  The inner \<^verbatim>\<open>try\<close> of the branch taken when the text contains a dot: \<^verbatim>\<open>ValueError\<close> is
  caught there and leaves the date unset; \<^verbatim>\<open>OverflowError\<close> is not and reaches the outer
  handler.
\<close>

definition parse_parts :: "string \<Rightarrow> exc + date option" where
  "parse_parts date_str =
     (let parts = split_on CHR ''.'' (strip date_str)
      in if length parts = 3 then
           (case py_int (parts ! 0) of
              None \<Rightarrow> Inr None
            | Some y \<Rightarrow>
               (case py_int (parts ! 1) of
                  None \<Rightarrow> Inr None
                | Some m \<Rightarrow>
                   (case py_int (parts ! 2) of
                      None \<Rightarrow> Inr None
                    | Some d \<Rightarrow>
                       (case mk_date y m d of
                          Inr r \<Rightarrow> Inr (Some r)
                        | Inl ValueError \<Rightarrow> Inr None
                        | Inl e \<Rightarrow> Inl e))))
         else Inr None)"

text \<open>
  \<^verbatim>\<open>datetime.strptime(s, "%Y<sep>%m<sep>%d")\<close>: the directives are the library's regular
  expressions, alternatives tried in order; the whole text must be consumed and the
  numbers must form a date. \<open>None\<close> stands for \<^verbatim>\<open>ValueError\<close>.
\<close>

definition two_digits :: "(char \<Rightarrow> bool) \<Rightarrow> (char \<Rightarrow> bool) \<Rightarrow> string \<Rightarrow> (nat \<times> string) list" where
  "two_digits P Q s =
     (case s of
        a # b # r \<Rightarrow> if P a \<and> Q b then [(10 * digit_val a + digit_val b, r)] else []
      | _ \<Rightarrow> [])"

definition one_digit :: "(char \<Rightarrow> bool) \<Rightarrow> string \<Rightarrow> (nat \<times> string) list" where
  "one_digit P s = (case s of a # r \<Rightarrow> if P a then [(digit_val a, r)] else [] | _ \<Rightarrow> [])"

definition nonzero_digit :: "char \<Rightarrow> bool" where
  "nonzero_digit c = (is_digit c \<and> c \<noteq> CHR ''0'')"

definition month_alts :: "string \<Rightarrow> (nat \<times> string) list" where
  "month_alts s =
     two_digits (\<lambda>c. c = CHR ''1'') (\<lambda>c. c \<in> set ''012'') s
     @ two_digits (\<lambda>c. c = CHR ''0'') nonzero_digit s
     @ one_digit nonzero_digit s"

definition day_alts :: "string \<Rightarrow> (nat \<times> string) list" where
  "day_alts s =
     two_digits (\<lambda>c. c = CHR ''3'') (\<lambda>c. c \<in> set ''01'') s
     @ two_digits (\<lambda>c. c \<in> set ''12'') is_digit s
     @ two_digits (\<lambda>c. c = CHR ''0'') nonzero_digit s
     @ one_digit nonzero_digit s
     @ (case s of a # r \<Rightarrow> if a = CHR '' '' then one_digit nonzero_digit r else [] | _ \<Rightarrow> [])"

definition strptime :: "char \<Rightarrow> string \<Rightarrow> date option" where
  "strptime sep s =
     (case s of
        y1 # y2 # y3 # y4 # c # r1 \<Rightarrow>
          if list_all is_digit [y1, y2, y3, y4] \<and> c = sep then
            (case find (\<lambda>(m, r). take 1 r = [sep]) (month_alts r1) of
               None \<Rightarrow> None
             | Some (m, r2) \<Rightarrow>
                (case day_alts (drop 1 r2) of
                   [] \<Rightarrow> None
                 | (d, r3) # _ \<Rightarrow>
                    if r3 = [] then
                      (case mk_date (int (1000 * digit_val y1 + 100 * digit_val y2
                                           + 10 * digit_val y3 + digit_val y4))
                                    (int m) (int d) of
                         Inr r \<Rightarrow> Some r
                       | Inl e \<Rightarrow> None)
                    else None))
          else None
      | _ \<Rightarrow> None)"

text \<open>The loop over \<^verbatim>\<open>date_formats\<close>: the first format that parses wins.\<close>

fun try_formats :: "char list \<Rightarrow> string \<Rightarrow> date option" where
  "try_formats [] s = None"
| "try_formats (sep # seps) s =
     (case strptime sep s of Some d \<Rightarrow> Some d | None \<Rightarrow> try_formats seps s)"

definition date_formats :: "char list" where
  "date_formats = [CHR ''.'', CHR ''-'', CHR ''/'']"

text \<open>
  Lines 486 to 522 of \<^verbatim>\<open>upload_orders\<close>. \<open>today\<close> is \<^verbatim>\<open>datetime.now().date()\<close>. An
  exception other than \<^verbatim>\<open>ValueError\<close> reaches the outer handler, which uses today.
\<close>

definition order_date :: "pylib \<Rightarrow> date \<Rightarrow> pyval \<Rightarrow> date" where
  "order_date L today c =
     (case c of
        PDateTime t \<Rightarrow> dt_date t
      | _ \<Rightarrow>
         (let date_str = py_str L c
          in case (if CHR ''.'' \<in> set date_str then parse_parts date_str else Inr None) of
               Inl e \<Rightarrow> today
             | Inr (Some d) \<Rightarrow> d
             | Inr None \<Rightarrow>
                (case try_formats date_formats (strip date_str) of
                   Some d \<Rightarrow> d
                 | None \<Rightarrow> today)))"

section \<open>The store of \<^verbatim>\<open>app/models.py\<close>\<close>

text \<open>
  One record per mapped class. An attribute that Python leaves unset is \<open>None\<close>; the primary
  key is unset until the object is flushed. Tables are lists in the order the engine scans
  them, which is the order \<^verbatim>\<open>first()\<close> follows.
\<close>

record supplier_row =
  s_id :: "int option"
  s_name :: "string option"
  s_contact :: "string option"
  s_address :: "string option"
  s_is_deleted :: "bool option"

record item_row =
  i_id :: "int option"
  i_name :: "string option"
  i_description :: "string option"
  i_price :: "pyfloat option"
  i_vat_excluded :: "bool option"
  i_is_deleted :: "bool option"

record unit_row =
  u_id :: "int option"
  u_name :: "string option"
  u_description :: "string option"
  u_is_deleted :: "bool option"

record order_row =
  o_id :: "int option"
  o_supplier_id :: "int option"
  o_item_id :: "int option"
  o_unit_id :: "int option"
  o_quantity :: "pyfloat option"
  o_price :: "pyfloat option"
  o_total :: "pyfloat option"
  o_payment_cycle :: "string option"
  o_payment_method :: "string option"
  o_client :: "string option"
  o_notes :: "string option"
  o_date :: "string option"
  o_is_deleted :: "bool option"
  o_approval_status :: "string option"
  o_approved_by :: "string option"
  o_approved_at :: "string option"
  o_rejection_reason :: "string option"

record db =
  suppliers :: "supplier_row list"
  items :: "item_row list"
  units :: "unit_row list"
  orders :: "order_row list"

text \<open>A generated key is one more than the largest key in use, 1 in an empty table.\<close>

definition next_id :: "int option list \<Rightarrow> int" where
  "next_id ids =
     (case List.map_filter (\<lambda>k. k) ids of [] \<Rightarrow> 1 | k # ks \<Rightarrow> fold max ks k + 1)"

definition or_default :: "'a option \<Rightarrow> 'a \<Rightarrow> 'a option" where
  "or_default v d = (case v of None \<Rightarrow> Some d | Some x \<Rightarrow> Some x)"

definition bank_transfer :: string where
  "bank_transfer = [CHR 0xEA, CHR 0xB3, CHR 0x84, CHR 0xEC, CHR 0xA2, CHR 0x8C, CHR 0xEC, CHR 0x9D,
                    CHR 0xB4, CHR 0xEC, CHR 0xB2, CHR 0xB4]"

text \<open>
  \<^verbatim>\<open>INSERT\<close>: the primary key and the \<^verbatim>\<open>unique=True\<close> name column are checked by the
  engine (several rows may have no name), and the column defaults fill unset attributes.
\<close>

definition insert_supplier :: "supplier_row \<Rightarrow> db \<Rightarrow> exc + (int \<times> db)" where
  "insert_supplier r d =
     (let k = (case s_id r of Some k \<Rightarrow> k | None \<Rightarrow> next_id (map s_id (suppliers d)))
      in if Some k \<in> set (map s_id (suppliers d)) then
           Inl (IntegrityError ''UNIQUE constraint failed: suppliers.id'')
         else if s_name r \<noteq> None \<and> s_name r \<in> set (map s_name (suppliers d)) then
           Inl (IntegrityError ''UNIQUE constraint failed: suppliers.name'')
         else Inr (k, d\<lparr>suppliers := suppliers d
                     @ [r\<lparr>s_id := Some k, s_is_deleted := or_default (s_is_deleted r) False\<rparr>]\<rparr>))"

definition insert_item :: "item_row \<Rightarrow> db \<Rightarrow> exc + (int \<times> db)" where
  "insert_item r d =
     (let k = (case i_id r of Some k \<Rightarrow> k | None \<Rightarrow> next_id (map i_id (items d)))
      in if Some k \<in> set (map i_id (items d)) then
           Inl (IntegrityError ''UNIQUE constraint failed: items.id'')
         else if i_name r \<noteq> None \<and> i_name r \<in> set (map i_name (items d)) then
           Inl (IntegrityError ''UNIQUE constraint failed: items.name'')
         else Inr (k, d\<lparr>items := items d
                     @ [r\<lparr>i_id := Some k,
                          i_vat_excluded := or_default (i_vat_excluded r) False,
                          i_is_deleted := or_default (i_is_deleted r) False\<rparr>]\<rparr>))"

definition insert_unit :: "unit_row \<Rightarrow> db \<Rightarrow> exc + (int \<times> db)" where
  "insert_unit r d =
     (let k = (case u_id r of Some k \<Rightarrow> k | None \<Rightarrow> next_id (map u_id (units d)))
      in if Some k \<in> set (map u_id (units d)) then
           Inl (IntegrityError ''UNIQUE constraint failed: units.id'')
         else if u_name r \<noteq> None \<and> u_name r \<in> set (map u_name (units d)) then
           Inl (IntegrityError ''UNIQUE constraint failed: units.name'')
         else Inr (k, d\<lparr>units := units d
                     @ [r\<lparr>u_id := Some k,
                          u_description := or_default (u_description r) [],
                          u_is_deleted := or_default (u_is_deleted r) False\<rparr>]\<rparr>))"

definition insert_order :: "order_row \<Rightarrow> db \<Rightarrow> exc + (int \<times> db)" where
  "insert_order r d =
     (let k = (case o_id r of Some k \<Rightarrow> k | None \<Rightarrow> next_id (map o_id (orders d)))
      in if Some k \<in> set (map o_id (orders d)) then
           Inl (IntegrityError ''UNIQUE constraint failed: orders.id'')
         else Inr (k, d\<lparr>orders := orders d
                     @ [r\<lparr>o_id := Some k,
                          o_payment_method := or_default (o_payment_method r) bank_transfer,
                          o_is_deleted := or_default (o_is_deleted r) False\<rparr>]\<rparr>))"

text \<open>\<^verbatim>\<open>UPDATE orders SET ... WHERE id = ?\<close> for a loaded order whose attributes changed.\<close>

definition update_order_row :: "order_row \<Rightarrow> db \<Rightarrow> db" where
  "update_order_row r d = d\<lparr>orders := map (\<lambda>x. if o_id x = o_id r then r else x) (orders d)\<rparr>"

subsection \<open>The session of \<^verbatim>\<open>app/database.py\<close>\<close>

text \<open>
  \<^verbatim>\<open>SessionLocal\<close> is made with \<^verbatim>\<open>autocommit=False, autoflush=False\<close>: a session holds the
  persisted store, the store as the open transaction sees it after its flushes, and the
  objects added or changed in memory and not flushed yet. Queries read the transaction.
\<close>

datatype pending =
    AddSupplier supplier_row
  | AddItem item_row
  | AddUnit unit_row
  | AddOrder order_row
  | DirtyOrder order_row

record session =
  committed :: db
  txn :: db
  pending :: "pending list"

fun flush_one :: "pending \<Rightarrow> db \<Rightarrow> exc + (int option \<times> db)" where
  "flush_one (AddSupplier r) d = map_sum id (\<lambda>(k, d'). (Some k, d')) (insert_supplier r d)"
| "flush_one (AddItem r) d = map_sum id (\<lambda>(k, d'). (Some k, d')) (insert_item r d)"
| "flush_one (AddUnit r) d = map_sum id (\<lambda>(k, d'). (Some k, d')) (insert_unit r d)"
| "flush_one (AddOrder r) d = map_sum id (\<lambda>(k, d'). (Some k, d')) (insert_order r d)"
| "flush_one (DirtyOrder r) d = Inr (o_id r, update_order_row r d)"

text \<open>
  A flush writes the pending objects and returns the key of each; it stops at the first
  statement the engine refuses, and what it wrote before stays in the transaction until
  the rollback.
\<close>

fun flush_all :: "pending list \<Rightarrow> db \<Rightarrow> (exc + int option list) \<times> db" where
  "flush_all [] d = (Inr [], d)"
| "flush_all (p # ps) d =
     (case flush_one p d of
        Inl e \<Rightarrow> (Inl e, d)
      | Inr (k, d') \<Rightarrow>
         (case flush_all ps d' of
            (Inl e, d'') \<Rightarrow> (Inl e, d'')
          | (Inr ks, d'') \<Rightarrow> (Inr (k # ks), d'')))"

definition db_add :: "pending \<Rightarrow> session \<Rightarrow> session" where
  "db_add p s = s\<lparr>pending := pending s @ [p]\<rparr>"

definition db_add_all :: "pending list \<Rightarrow> session \<Rightarrow> session" where
  "db_add_all ps s = s\<lparr>pending := pending s @ ps\<rparr>"

definition db_flush :: "session \<Rightarrow> (exc + int option list) \<times> session" where
  "db_flush s =
     (case flush_all (pending s) (txn s) of
        (Inl e, d) \<Rightarrow> (Inl e, s\<lparr>txn := d\<rparr>)
      | (Inr ks, d) \<Rightarrow> (Inr ks, s\<lparr>txn := d, pending := []\<rparr>))"

definition db_commit :: "session \<Rightarrow> (exc + int option list) \<times> session" where
  "db_commit s =
     (case db_flush s of
        (Inl e, s') \<Rightarrow> (Inl e, s')
      | (Inr ks, s') \<Rightarrow> (Inr ks, s'\<lparr>committed := txn s'\<rparr>))"

definition db_rollback :: "session \<Rightarrow> session" where
  "db_rollback s = s\<lparr>txn := committed s, pending := []\<rparr>"

definition db_close :: "session \<Rightarrow> session" where
  "db_close s = db_rollback s"

text \<open>
  \<^verbatim>\<open>get_db\<close>: a request gets a fresh session on the persisted store, and the session is
  closed when the handler is done; what was not committed is dropped.
\<close>

definition get_db :: "db \<Rightarrow> session" where
  "get_db d = \<lparr>committed = d, txn = d, pending = []\<rparr>"

definition request :: "(session \<Rightarrow> 'r \<times> session) \<Rightarrow> db \<Rightarrow> 'r \<times> db" where
  "request handler d = (case handler (get_db d) of (r, s) \<Rightarrow> (r, committed (db_close s)))"

fun contains :: "string \<Rightarrow> string \<Rightarrow> bool" where
  "contains p [] = (p = [])"
| "contains p (x # xs) = (take (length p) (x # xs) = p \<or> contains p xs)"

fun exc_str :: "exc \<Rightarrow> string" where
  "exc_str IndexError = ''tuple index out of range''"
| "exc_str OverflowError = ''int too large to convert to float''"
| "exc_str ValueError = ''invalid value''"
| "exc_str (TypeError m) = m"
| "exc_str (IntegrityError m) = ''(sqlite3.IntegrityError) '' @ m"
| "exc_str (LoadError m) = m"

section \<open>Handlers of \<^verbatim>\<open>app/main.py\<close>\<close>

subsection \<open>\<^verbatim>\<open>create_supplier\<close>\<close>

record SupplierBase =
  sb_name :: string
  sb_contact :: "string option"
  sb_address :: "string option"

text \<open>
  The filter argument \<^verbatim>\<open>models.Supplier.is_deleted is False\<close> is Python's identity test
  of the column attribute against the literal: it is evaluated before the query is built
  and is the constant \<^verbatim>\<open>False\<close>.
\<close>

definition is_deleted_is_False :: bool where
  "is_deleted_is_False = False"

definition create_supplier ::
  "SupplierBase \<Rightarrow> session \<Rightarrow> (http_error + supplier_row) \<times> session" where
  "create_supplier supplier s =
     (case find (\<lambda>r. s_name r = Some (sb_name supplier) \<and> is_deleted_is_False)
                (suppliers (txn s)) of
        Some existing_supplier \<Rightarrow> (Inl (HTTPException 400 ''already_exists''), db_rollback s)
      | None \<Rightarrow>
         (let db_supplier = \<lparr>s_id = None, s_name = Some (sb_name supplier),
                             s_contact = sb_contact supplier, s_address = sb_address supplier,
                             s_is_deleted = Some False\<rparr>
          in case db_commit (db_add (AddSupplier db_supplier) s) of
               (Inl e, s') \<Rightarrow>
                 (if contains ''UNIQUE constraint failed'' (exc_str e)
                  then (Inl (HTTPException 400 ''already_exists''), db_rollback s')
                  else (Inl (HTTPException 500 (exc_str e)), db_rollback s'))
             | (Inr ks, s') \<Rightarrow>
                 (case find (\<lambda>r. [s_id r] = ks) (suppliers (txn s')) of
                    Some r \<Rightarrow> (Inr r, s')
                  | None \<Rightarrow> (Inl (HTTPException 500 ''Could not refresh instance''),
                             db_rollback s'))))"

subsection \<open>\<^verbatim>\<open>read_orders\<close>\<close>

definition deleted_name :: string where
  "deleted_name = [CHR 0xEC, CHR 0x82, CHR 0xAD, CHR 0xEC, CHR 0xA0, CHR 0x9C, CHR 0xEB, CHR 0x90,
                   CHR 0xA8]"

definition supplier_placeholder :: supplier_row where
  "supplier_placeholder =
     \<lparr>s_id = Some 0, s_name = Some deleted_name, s_contact = None, s_address = None,
      s_is_deleted = None\<rparr>"

definition item_placeholder :: item_row where
  "item_placeholder =
     \<lparr>i_id = Some 0, i_name = Some deleted_name, i_description = None, i_price = None,
      i_vat_excluded = None, i_is_deleted = None\<rparr>"

definition unit_placeholder :: unit_row where
  "unit_placeholder =
     \<lparr>u_id = Some 0, u_name = Some deleted_name, u_description = None, u_is_deleted = None\<rparr>"

text \<open>The relations that \<^verbatim>\<open>joinedload\<close> attaches: the row the foreign key names, if any.\<close>

definition load_supplier :: "db \<Rightarrow> order_row \<Rightarrow> supplier_row option" where
  "load_supplier d order =
     (case o_supplier_id order of
        None \<Rightarrow> None
      | Some k \<Rightarrow> find (\<lambda>r. s_id r = Some k) (suppliers d))"

definition load_item :: "db \<Rightarrow> order_row \<Rightarrow> item_row option" where
  "load_item d order =
     (case o_item_id order of
        None \<Rightarrow> None
      | Some k \<Rightarrow> find (\<lambda>r. i_id r = Some k) (items d))"

definition load_unit :: "db \<Rightarrow> order_row \<Rightarrow> unit_row option" where
  "load_unit d order =
     (case o_unit_id order of
        None \<Rightarrow> None
      | Some k \<Rightarrow> find (\<lambda>r. u_id r = Some k) (units d))"

text \<open>An order as the handler returns it: the row and its three relation attributes.\<close>

record order_view =
  ov_order :: order_row
  ov_supplier :: "supplier_row option"
  ov_item :: "item_row option"
  ov_unit :: "unit_row option"

definition supplier_gone :: "supplier_row option \<Rightarrow> bool" where
  "supplier_gone r = (case r of None \<Rightarrow> True | Some x \<Rightarrow> s_is_deleted x = Some True)"

definition item_gone :: "item_row option \<Rightarrow> bool" where
  "item_gone r = (case r of None \<Rightarrow> True | Some x \<Rightarrow> i_is_deleted x = Some True)"

definition unit_gone :: "unit_row option \<Rightarrow> bool" where
  "unit_gone r = (case r of None \<Rightarrow> True | Some x \<Rightarrow> u_is_deleted x = Some True)"

text \<open>
  One pass of the loop body. Assigning a new object to a relation of a loaded order makes
  the order dirty (its foreign key would become 0 at a flush) and puts the new object
  into the session.
\<close>

definition mask_order :: "db \<Rightarrow> order_row \<Rightarrow> order_view \<times> pending list" where
  "mask_order d order =
     (let sup = load_supplier d order; it = load_item d order; un = load_unit d order;
          order1 = (if supplier_gone sup then order\<lparr>o_supplier_id := Some 0\<rparr> else order);
          order2 = (if item_gone it then order1\<lparr>o_item_id := Some 0\<rparr> else order1);
          order3 = (if unit_gone un then order2\<lparr>o_unit_id := Some 0\<rparr> else order2)
      in (\<lparr>ov_order = order,
           ov_supplier = (if supplier_gone sup then Some supplier_placeholder else sup),
           ov_item = (if item_gone it then Some item_placeholder else it),
           ov_unit = (if unit_gone un then Some unit_placeholder else un)\<rparr>,
          (if supplier_gone sup then [AddSupplier supplier_placeholder] else [])
          @ (if item_gone it then [AddItem item_placeholder] else [])
          @ (if unit_gone un then [AddUnit unit_placeholder] else [])
          @ (if supplier_gone sup \<or> item_gone it \<or> unit_gone un then [DirtyOrder order3]
             else [])))"

definition read_orders :: "session \<Rightarrow> (http_error + order_view list) \<times> session" where
  "read_orders s =
     (let listed = filter (\<lambda>x. o_is_deleted x = Some False) (orders (txn s));
          masked = map (mask_order (txn s)) listed
      in (Inr (map fst masked), db_add_all (concat (map snd masked)) s))"

subsection \<open>\<^verbatim>\<open>approve_order\<close> and \<^verbatim>\<open>reject_order\<close>\<close>

definition approver :: string where
  "approver = [CHR 0xEC, CHR 0x9D, CHR 0xB4, CHR 0xEC, CHR 0xA7, CHR 0x80, CHR 0xEC, CHR 0x9D,
               CHR 0x80]"

text \<open>\<^verbatim>\<open>strftime("%y-%m-%d %H:%M")\<close>\<close>

definition strftime :: "datetime \<Rightarrow> string" where
  "strftime t =
     pad 2 (nat (year (dt_date t)) mod 100) @ ''-'' @ pad 2 (nat (month (dt_date t))) @ ''-''
       @ pad 2 (nat (day (dt_date t))) @ '' '' @ pad 2 (hour t) @ '':'' @ pad 2 (minute t)"

text \<open>
  \<open>now\<close> is \<^verbatim>\<open>datetime.now()\<close>. Setting attributes of the loaded order makes it dirty; the
  commit writes it. An exception that leaves these two handlers is answered by the
  framework with status 500.
\<close>

definition approve_order ::
  "datetime \<Rightarrow> int \<Rightarrow> string \<Rightarrow> session \<Rightarrow> (http_error + string) \<times> session" where
  "approve_order now order_id password s =
     (if password \<noteq> ''admin'' then (Inl (HTTPException 401 ''Invalid password''), s)
      else case find (\<lambda>x. o_id x = Some order_id) (orders (txn s)) of
             None \<Rightarrow> (Inl (HTTPException 404 ''Order not found''), s)
           | Some order \<Rightarrow>
              (case db_commit (db_add (DirtyOrder
                       (order\<lparr>o_approval_status := Some ''approved'',
                              o_approved_by := Some approver,
                              o_approved_at := Some (strftime now)\<rparr>)) s) of
                 (Inl e, s') \<Rightarrow> (Inl (HTTPException 500 ''Internal Server Error''), s')
               | (Inr ks, s') \<Rightarrow> (Inr ''Order approved successfully'', s')))"

definition reject_order ::
  "datetime \<Rightarrow> int \<Rightarrow> string \<Rightarrow> session \<Rightarrow> (http_error + string) \<times> session" where
  "reject_order now order_id reason s =
     (case find (\<lambda>x. o_id x = Some order_id) (orders (txn s)) of
        None \<Rightarrow> (Inl (HTTPException 404 ''Order not found''), s)
      | Some order \<Rightarrow>
         (case db_commit (db_add (DirtyOrder
                  (order\<lparr>o_approval_status := Some ''rejected'',
                         o_rejection_reason := Some reason,
                         o_approved_at := Some (strftime now)\<rparr>)) s) of
            (Inl e, s') \<Rightarrow> (Inl (HTTPException 500 ''Internal Server Error''), s')
          | (Inr ks, s') \<Rightarrow> (Inr ''Order rejected successfully'', s')))"

subsection \<open>\<^verbatim>\<open>upload_orders\<close>\<close>

text \<open>Sequencing of steps that may raise: on session state, and without state.\<close>

definition bnd ::
  "(session \<Rightarrow> (exc + 'a) \<times> session) \<Rightarrow> ('a \<Rightarrow> session \<Rightarrow> (exc + 'b) \<times> session)
     \<Rightarrow> session \<Rightarrow> (exc + 'b) \<times> session" where
  "bnd m f s = (case m s of (Inl e, s') \<Rightarrow> (Inl e, s') | (Inr a, s') \<Rightarrow> f a s')"

definition lift :: "exc + 'a \<Rightarrow> session \<Rightarrow> (exc + 'a) \<times> session" where
  "lift r s = (r, s)"

definition thn :: "exc + 'a \<Rightarrow> ('a \<Rightarrow> exc + 'b) \<Rightarrow> exc + 'b" where
  "thn r f = (case r of Inl e \<Rightarrow> Inl e | Inr a \<Rightarrow> f a)"

text \<open>\<^verbatim>\<open>db.add(x); db.flush()\<close>, then \<^verbatim>\<open>x.id\<close>: the key the flush gave the added object.\<close>

definition add_flush :: "pending \<Rightarrow> session \<Rightarrow> (exc + int option) \<times> session" where
  "add_flush p s =
     (case db_flush (db_add p s) of
        (Inl e, s') \<Rightarrow> (Inl e, s')
      | (Inr ks, s') \<Rightarrow> (Inr (if ks = [] then None else last ks), s'))"

definition vat_marker :: string where
  "vat_marker = [CHR 0xEB, CHR 0xB6, CHR 0x80, CHR 0xEA, CHR 0xB0, CHR 0x80, CHR 0xEC, CHR 0x84,
                 CHR 0xB8, CHR 0xEB, CHR 0xB3, CHR 0x84, CHR 0xEB, CHR 0x8F, CHR 0x84]"

definition default_unit :: string where
  "default_unit = [CHR 0xEA, CHR 0xB0, CHR 0x9C]"

definition undetermined :: string where
  "undetermined = [CHR 0xEB, CHR 0xAF, CHR 0xB8, CHR 0xEC, CHR 0xA0, CHR 0x95]"

text \<open>
  Lines 524 to 553: the three reference rows of a data row. A comparison of a text column
  with \<^verbatim>\<open>None\<close> is \<^verbatim>\<open>IS NULL\<close>, so both cases are equality with the bound value. The
  queries have no condition on \<^verbatim>\<open>is_deleted\<close>.
\<close>

definition reconcile_supplier :: "pylib \<Rightarrow> pyval list \<Rightarrow> session \<Rightarrow> (exc + int option) \<times> session" where
  "reconcile_supplier L row =
     bnd (lift (idx row 1)) (\<lambda>c1 s.
       case find (\<lambda>r. s_name r = bind_text L c1) (suppliers (txn s)) of
         Some supplier \<Rightarrow> (Inr (s_id supplier), s)
       | None \<Rightarrow>
          bnd (lift (idx row 9)) (\<lambda>c9.
            add_flush (AddSupplier \<lparr>s_id = None, s_name = bind_text L c1,
                                    s_contact = bind_text L c9, s_address = None,
                                    s_is_deleted = None\<rparr>)) s)"

definition reconcile_item :: "pylib \<Rightarrow> pyval list \<Rightarrow> session \<Rightarrow> (exc + int option) \<times> session" where
  "reconcile_item L row =
     bnd (lift (idx row 2)) (\<lambda>c2 s.
       case find (\<lambda>r. i_name r = bind_text L c2) (items (txn s)) of
         Some item \<Rightarrow> (Inr (i_id item), s)
       | None \<Rightarrow>
          bnd (lift (idx row 10)) (\<lambda>c10.
            let notes = py_str L (py_or c10 (PStr []));
                vat_excluded = contains vat_marker notes
            in bnd (lift (thn (idx row 3) (get_float_value L))) (\<lambda>price.
                 add_flush (AddItem \<lparr>i_id = None, i_name = bind_text L c2,
                                     i_description = (if vat_excluded then Some vat_marker else None),
                                     i_price = Some price, i_vat_excluded = Some vat_excluded,
                                     i_is_deleted = None\<rparr>))) s)"

definition reconcile_unit :: "pylib \<Rightarrow> pyval list \<Rightarrow> session \<Rightarrow> (exc + int option) \<times> session" where
  "reconcile_unit L row =
     bnd (lift (idx row 4)) (\<lambda>c4 s.
       let unit_name = py_str L (py_or c4 (PStr default_unit))
       in case find (\<lambda>r. u_name r = Some unit_name) (units (txn s)) of
            Some unit \<Rightarrow> (Inr (u_id unit), s)
          | None \<Rightarrow>
             add_flush (AddUnit \<lparr>u_id = None, u_name = Some unit_name, u_description = None,
                                 u_is_deleted = None\<rparr>) s)"

text \<open>
  The constructor of a mapped class takes keyword arguments: each keyword must be an
  attribute of the class, or \<^verbatim>\<open>TypeError\<close> is raised; the attributes of \<^verbatim>\<open>Order\<close> are the
  columns and relationships that \<^verbatim>\<open>app/models.py\<close> declares.
\<close>

datatype attr = AInt "int option" | AFloat pyfloat | AText string | ADate date

definition Order_attributes :: "string list" where
  "Order_attributes =
     [''id'', ''supplier_id'', ''item_id'', ''unit_id'', ''quantity'', ''price'', ''total'',
      ''payment_cycle'', ''payment_method'', ''client'', ''notes'', ''date'', ''is_deleted'',
      ''approval_status'', ''approved_by'', ''approved_at'', ''rejection_reason'',
      ''supplier'', ''item'', ''unit'']"

definition attr_int :: "attr \<Rightarrow> int option" where
  "attr_int v = (case v of AInt k \<Rightarrow> k | _ \<Rightarrow> None)"

definition attr_float :: "attr \<Rightarrow> pyfloat option" where
  "attr_float v = (case v of AFloat f \<Rightarrow> Some f | _ \<Rightarrow> None)"

definition attr_text :: "attr \<Rightarrow> string option" where
  "attr_text v = (case v of AText t \<Rightarrow> Some t | ADate d \<Rightarrow> Some (isoformat d) | _ \<Rightarrow> None)"

text \<open>
  The attributes that this handler's keywords can reach are stored with the type the
  handler gives them; a date goes to the text column \<^verbatim>\<open>date\<close> in ISO form.
\<close>

definition setattr_order :: "string \<Rightarrow> attr \<Rightarrow> order_row \<Rightarrow> order_row" where
  "setattr_order k v r =
     (if k = ''date'' then r\<lparr>o_date := attr_text v\<rparr>
      else if k = ''supplier_id'' then r\<lparr>o_supplier_id := attr_int v\<rparr>
      else if k = ''item_id'' then r\<lparr>o_item_id := attr_int v\<rparr>
      else if k = ''unit_id'' then r\<lparr>o_unit_id := attr_int v\<rparr>
      else if k = ''price'' then r\<lparr>o_price := attr_float v\<rparr>
      else if k = ''quantity'' then r\<lparr>o_quantity := attr_float v\<rparr>
      else if k = ''total'' then r\<lparr>o_total := attr_float v\<rparr>
      else if k = ''payment_cycle'' then r\<lparr>o_payment_cycle := attr_text v\<rparr>
      else if k = ''payment_method'' then r\<lparr>o_payment_method := attr_text v\<rparr>
      else if k = ''client'' then r\<lparr>o_client := attr_text v\<rparr>
      else if k = ''notes'' then r\<lparr>o_notes := attr_text v\<rparr>
      else r)"

definition unset_order :: order_row where
  "unset_order =
     \<lparr>o_id = None, o_supplier_id = None, o_item_id = None, o_unit_id = None,
      o_quantity = None, o_price = None, o_total = None, o_payment_cycle = None,
      o_payment_method = None, o_client = None, o_notes = None, o_date = None,
      o_is_deleted = None, o_approval_status = None, o_approved_by = None,
      o_approved_at = None, o_rejection_reason = None\<rparr>"

fun Order_init :: "(string \<times> attr) list \<Rightarrow> order_row \<Rightarrow> exc + order_row" where
  "Order_init [] r = Inr r"
| "Order_init ((k, v) # kwargs) r =
     (if k \<in> set Order_attributes then Order_init kwargs (setattr_order k v r)
      else Inl (TypeError ([CHR 0x27] @ k @ [CHR 0x27]
                           @ '' is an invalid keyword argument for Order'')))"

text \<open>Lines 556 to 568: the keyword arguments are evaluated in order, then the constructor runs.\<close>

definition build_order ::
  "pylib \<Rightarrow> date \<Rightarrow> pyval list \<Rightarrow> int option \<Rightarrow> int option \<Rightarrow> int option \<Rightarrow> exc + order_row" where
  "build_order L d row supplier_id item_id unit_id =
     thn (thn (idx row 3) (get_float_value L)) (\<lambda>price.
     thn (thn (idx row 5) (get_float_value L)) (\<lambda>quantity.
     thn (thn (idx row 6) (get_float_value L)) (\<lambda>total.
     thn (idx row 7) (\<lambda>c7.
     thn (idx row 8) (\<lambda>c8.
     thn (idx row 9) (\<lambda>c9.
     thn (idx row 10) (\<lambda>c10.
       Order_init
         [(''date'', ADate d),
          (''supplier_id'', AInt supplier_id),
          (''item_id'', AInt item_id),
          (''unit_id'', AInt unit_id),
          (''price'', AFloat price),
          (''quantity'', AFloat quantity),
          (''total'', AFloat total),
          (''payment_schedule'', AText (py_str L (py_or c7 (PStr undetermined)))),
          (''purchase_cycle'', AText (py_str L (py_or c8 (PStr ''daily'')))),
          (''client'', AText (py_str L (py_or c9 (PStr [])))),
          (''notes'', AText (py_str L (py_or c10 (PStr []))))]
         unset_order)))))))"

text \<open>
  The body of the loop for a row that is not skipped. Reading \<^verbatim>\<open>row[0]\<close> is inside the
  \<^verbatim>\<open>try\<close> whose handler uses today.
\<close>

definition process_row ::
  "pylib \<Rightarrow> date \<Rightarrow> pyval list \<Rightarrow> session \<Rightarrow> (exc + order_row) \<times> session" where
  "process_row L today row =
     (let d = (case idx row 0 of Inl e \<Rightarrow> today | Inr c \<Rightarrow> order_date L today c)
      in bnd (reconcile_supplier L row) (\<lambda>supplier_id.
         bnd (reconcile_item L row) (\<lambda>item_id.
         bnd (reconcile_unit L row) (\<lambda>unit_id.
         lift (build_order L d row supplier_id item_id unit_id)))))"

fun process_rows ::
  "pylib \<Rightarrow> date \<Rightarrow> pyval list list \<Rightarrow> order_row list \<Rightarrow> session
     \<Rightarrow> (exc + order_row list) \<times> session" where
  "process_rows L today [] acc s = (Inr acc, s)"
| "process_rows L today (row # rows) acc s =
     (if \<not> py_any row then process_rows L today rows acc s
      else case process_row L today row s of
             (Inl e, s') \<Rightarrow> (Inl e, s')
           | (Inr order, s') \<Rightarrow> process_rows L today rows (acc @ [order]) s')"

text \<open>
  The uploaded file: its name, and what \<^verbatim>\<open>load_workbook\<close> makes of its bytes, either an
  exception or the rows of the active sheet, the header row first.
\<close>

record upload_file =
  filename :: string
  sheet :: "exc + pyval list list"

definition endswith :: "string \<Rightarrow> string \<Rightarrow> bool" where
  "endswith s p = (length p \<le> length s \<and> drop (length s - length p) s = p)"

definition upload_body ::
  "pylib \<Rightarrow> date \<Rightarrow> upload_file \<Rightarrow> session \<Rightarrow> (exc + nat) \<times> session" where
  "upload_body L today file =
     bnd (lift (sheet file)) (\<lambda>rows.
     bnd (process_rows L today (drop 1 rows) []) (\<lambda>orders s.
       case db_commit (db_add_all (map AddOrder orders) s) of
         (Inl e, s') \<Rightarrow> (Inl e, s')
       | (Inr ks, s') \<Rightarrow> (Inr (length orders), s')))"

definition upload_orders ::
  "pylib \<Rightarrow> date \<Rightarrow> upload_file \<Rightarrow> session \<Rightarrow> (http_error + string) \<times> session" where
  "upload_orders L today file s =
     (if \<not> endswith (filename file) ''.xlsx''
      then (Inl (HTTPException 400 ''Only .xlsx files are allowed''), s)
      else case upload_body L today file s of
             (Inl e, s') \<Rightarrow> (Inl (HTTPException 500 (exc_str e)), db_rollback s')
           | (Inr n, s') \<Rightarrow>
               (Inr (''Successfully uploaded '' @ nat_digits n @ '' orders''), s'))"

section \<open>Example data\<close>

definition order_7 :: order_row where
  "order_7 = unset_order\<lparr>o_id := Some 7, o_supplier_id := Some 1, o_item_id := Some 1,
                          o_unit_id := Some 1, o_is_deleted := Some False\<rparr>"

definition db_order_7 :: db where
  "db_order_7 = \<lparr>suppliers = [], items = [], units = [], orders = [order_7]\<rparr>"

definition noon :: datetime where
  "noon = DateTime (Date 2024 3 5) 12 0 0 0"



section \<open>Sessions and requests\<close>

lemma get_db_sel [simp]:
  "committed (get_db d) = d" "txn (get_db d) = d" "pending (get_db d) = []"
  by (simp_all add: get_db_def)

lemmas request_simps = request_def db_close_def db_rollback_def

lemma commit_dirty:
  "db_commit (db_add (DirtyOrder r) (get_db d)) = (Inr [o_id r], get_db (update_order_row r d))"
  by (simp add: db_commit_def db_flush_def db_add_def get_db_def)

lemma update_same_id:
  "o_id r = Some k \<Longrightarrow>
   update_order_row r d = d\<lparr>orders := map (\<lambda>x. if o_id x = Some k then r else x) (orders d)\<rparr>"
  by (simp add: update_order_row_def)

lemma find_id_holds: "find (\<lambda>x. o_id x = Some k) xs = Some r \<Longrightarrow> o_id r = Some k"
  by (induction xs) (auto split: if_splits)

lemma find_replace_id:
  "find (\<lambda>x. o_id x = Some k) xs = Some r \<Longrightarrow> o_id r' = Some k \<Longrightarrow>
   find (\<lambda>x. o_id x = Some k) (map (\<lambda>x. if o_id x = Some k then r' else x) xs) = Some r'"
  by (induction xs) (auto split: if_splits)

section \<open>The approval workflow\<close>

lemma approve_run:
  "find (\<lambda>x. o_id x = Some k) (orders d) = Some r \<Longrightarrow>
   approve_order now k ''admin'' (get_db d) =
     (Inr ''Order approved successfully'',
      get_db (d\<lparr>orders := map (\<lambda>x. if o_id x = Some k
                                    then r\<lparr>o_approval_status := Some ''approved'',
                                           o_approved_by := Some approver,
                                           o_approved_at := Some (strftime now)\<rparr>
                                    else x) (orders d)\<rparr>))"
proof -
  assume f: "find (\<lambda>x. o_id x = Some k) (orders d) = Some r"
  then have "o_id r = Some k" by (rule find_id_holds)
  with f show ?thesis by (simp add: approve_order_def commit_dirty update_same_id)
qed

lemma reject_run:
  "find (\<lambda>x. o_id x = Some k) (orders d) = Some r \<Longrightarrow>
   reject_order now k reason (get_db d) =
     (Inr ''Order rejected successfully'',
      get_db (d\<lparr>orders := map (\<lambda>x. if o_id x = Some k
                                    then r\<lparr>o_approval_status := Some ''rejected'',
                                           o_rejection_reason := Some reason,
                                           o_approved_at := Some (strftime now)\<rparr>
                                    else x) (orders d)\<rparr>))"
proof -
  assume f: "find (\<lambda>x. o_id x = Some k) (orders d) = Some r"
  then have "o_id r = Some k" by (rule find_id_holds)
  with f show ?thesis by (simp add: reject_order_def commit_dirty update_same_id)
qed

lemma find_order_7: "find (\<lambda>x. o_id x = Some 7) (orders db_order_7) = Some order_7"
  by (simp add: db_order_7_def order_7_def unset_order_def)

lemma find_order_8: "find (\<lambda>x. o_id x = Some 8) (orders db_order_7) = None"
  by (simp add: db_order_7_def order_7_def unset_order_def)



text \<open>
  Claim C9. The secret is checked before the order is looked up: with a wrong secret the
  answer is 401 for every order id and every session, which is returned as it was, so the
  answer does not depend on the store; and an answer 404 is only given when the secret is
  right.
\<close>

theorem approve_secret_first:
  "(p \<noteq> ''admin'' \<longrightarrow>
      (\<forall>s. approve_order now k p s = (Inl (HTTPException 401 ''Invalid password''), s)))
   \<and> (\<forall>s m. fst (approve_order now k p s) = Inl (HTTPException 404 m) \<longrightarrow> p = ''admin'')"
  by (auto simp add: approve_order_def)

theorem approve_secret_first_witness:
  "(\<forall>s. approve_order noon 8 ''guess'' s = (Inl (HTTPException 401 ''Invalid password''), s))
   \<and> fst (approve_order noon 8 ''admin'' (get_db db_order_7))
       = Inl (HTTPException 404 ''Order not found'')"
proof -
  have g: "''guess'' \<noteq> ''admin''" by simp
  have n: "fst (approve_order noon 8 ''admin'' (get_db db_order_7))
             = Inl (HTTPException 404 ''Order not found'')"
    by (simp add: approve_order_def find_order_8)
  show ?thesis
    using approve_secret_first [of "''guess''" noon 8] g n by blast
qed

text \<open>
  Claim C10. Rejecting an order that exists stores status \<^verbatim>\<open>rejected\<close>, the caller's reason
  and the current time in \<^verbatim>\<open>approved_at\<close>, and keeps \<^verbatim>\<open>approved_by\<close> as it was; approving
  it stores status, approver and time and keeps \<^verbatim>\<open>rejection_reason\<close> as it was. So an order
  approved and then rejected still names its approver.
\<close>

theorem decision_fields_frame:
  assumes "find (\<lambda>x. o_id x = Some k) (orders d) = Some r"
  shows "(\<exists>r'. find (\<lambda>x. o_id x = Some k) (orders (snd (request (reject_order now k reason) d)))
                 = Some r'
              \<and> o_approval_status r' = Some ''rejected''
              \<and> o_rejection_reason r' = Some reason
              \<and> o_approved_at r' = Some (strftime now)
              \<and> o_approved_by r' = o_approved_by r)
       \<and> (\<exists>r'. find (\<lambda>x. o_id x = Some k)
                      (orders (snd (request (approve_order now k ''admin'') d))) = Some r'
              \<and> o_approval_status r' = Some ''approved''
              \<and> o_approved_by r' = Some approver
              \<and> o_approved_at r' = Some (strftime now)
              \<and> o_rejection_reason r' = o_rejection_reason r)"
proof -
  have k: "o_id r = Some k" using assms by (rule find_id_holds)
  let ?rej = "r\<lparr>o_approval_status := Some ''rejected'', o_rejection_reason := Some reason,
                 o_approved_at := Some (strftime now)\<rparr>"
  let ?app = "r\<lparr>o_approval_status := Some ''approved'', o_approved_by := Some approver,
                 o_approved_at := Some (strftime now)\<rparr>"
  have "find (\<lambda>x. o_id x = Some k) (orders (snd (request (reject_order now k reason) d)))
          = Some ?rej"
    using assms k by (simp add: request_simps reject_run find_replace_id)
  moreover
  have "find (\<lambda>x. o_id x = Some k) (orders (snd (request (approve_order now k ''admin'') d)))
          = Some ?app"
    using assms k by (simp add: request_simps approve_run find_replace_id)
  ultimately show ?thesis by simp
qed

theorem decision_fields_frame_witness:
  "\<exists>r'. find (\<lambda>x. o_id x = Some 7)
              (orders (snd (request (reject_order noon 7 ''late'')
                 (snd (request (approve_order noon 7 ''admin'') db_order_7)))))
            = Some r'
          \<and> o_approval_status r' = Some ''rejected''
          \<and> o_rejection_reason r' = Some ''late''
          \<and> o_approved_by r' = Some approver"
proof -
  let ?d = "snd (request (approve_order noon 7 ''admin'') db_order_7)"
  from decision_fields_frame [OF find_order_7, of noon "''x''"]
  obtain a where a: "find (\<lambda>x. o_id x = Some 7) (orders ?d) = Some a"
    and by_a: "o_approved_by a = Some approver"
    by blast
  from decision_fields_frame [OF a, of noon "''late''"] by_a
  show ?thesis by auto
qed

section \<open>Numeric normalization\<close>

lemma bit_length_0: "bit_length 0 = 0"
  by (subst bit_length.simps) simp

lemma bit_length_pos: "0 < n \<Longrightarrow> bit_length n = Suc (bit_length (n div 2))"
  by (subst bit_length.simps) simp

lemma bit_length_le: "m < 2 ^ k \<Longrightarrow> bit_length m \<le> k"
proof (induction m arbitrary: k rule: bit_length.induct)
  case (1 n)
  show ?case
  proof (cases "n = 0")
    case True
    then show ?thesis by (simp add: bit_length_0)
  next
    case False
    then obtain j where k: "k = Suc j" using "1.prems" by (cases k) auto
    have "n div 2 < 2 ^ j" using "1.prems" k by auto
    from "1.IH" [OF False this] show ?thesis using False k
      by (simp add: bit_length_pos)
  qed
qed

lemma round53_small: "m < 2 ^ 53 \<Longrightarrow> round53 m = m"
  using bit_length_le [of m 53] by (simp add: round53_def Let_def)

lemma float_of_int_exact:
  assumes "\<bar>n\<bar> < 2 ^ 53"
  shows "float_of_int n = Inr (Fin (of_int n))"
proof -
  have "nat \<bar>n\<bar> < 2 ^ 53" using assms by (simp add: nat_less_iff)
  then have r: "round53 (nat \<bar>n\<bar>) = nat \<bar>n\<bar>" by (rule round53_small)
  have "(2::nat) ^ 53 < 2 ^ 1024" by simp
  with \<open>nat \<bar>n\<bar> < 2 ^ 53\<close> have "\<not> (2::nat) ^ 1024 \<le> nat \<bar>n\<bar>" by linarith
  moreover have "sgn n * int (nat \<bar>n\<bar>) = n" by (simp add: mult_sgn_abs)
  ultimately show ?thesis
    by (simp add: float_of_int_def r Let_def
             del: power_strict_increasing_iff power_increasing_iff)
qed

lemma float_of_int_error: "float_of_int n = Inl e \<Longrightarrow> e = OverflowError"
  by (simp add: float_of_int_def Let_def split: if_splits)

text \<open>
  The cases of \<^verbatim>\<open>get_float_value\<close>: a falsy value gives 0.0; a float passes through; an
  integer below \<open>2 ^ 53\<close> in magnitude is converted exactly (42 gives 42.0); a string that
  starts with \<^verbatim>\<open>=\<close> gives 0.0; any other string loses its commas and is handed to
  \<^verbatim>\<open>float\<close>, 0.0 standing in when that fails.
\<close>

lemma get_float_value_cases:
  "\<not> truthy v \<Longrightarrow> get_float_value L v = Inr (Fin 0)"
  "get_float_value L (PFloat f) = Inr f"
  "\<bar>n\<bar> < 2 ^ 53 \<Longrightarrow> get_float_value L (PInt n) = Inr (Fin (of_int n))"
  "get_float_value L (PStr (CHR ''='' # s)) = Inr (Fin 0)"
  "s \<noteq> [] \<Longrightarrow> \<not> startswith s ''='' \<Longrightarrow>
     get_float_value L (PStr s)
       = Inr (case float_str L (remove_commas s) of Some f \<Rightarrow> f | None \<Rightarrow> Fin 0)"
  "get_float_value L (PInt 42) = Inr (Fin 42)"
  "get_float_value L (PStr ''1,234'')
       = Inr (case float_str L ''1234'' of Some f \<Rightarrow> f | None \<Rightarrow> Fin 0)"
  "get_float_value L (PStr ''=SUM(A1:A2)'') = Inr (Fin 0)"
  "get_float_value L PNone = Inr (Fin 0)"
  "get_float_value L (PStr []) = Inr (Fin 0)"
proof -
  show "\<not> truthy v \<Longrightarrow> get_float_value L v = Inr (Fin 0)"
    by (simp add: get_float_value_def)
  show "get_float_value L (PFloat f) = Inr f"
    by (auto simp add: get_float_value_def)
  show i: "\<And>n. \<bar>n\<bar> < 2 ^ 53 \<Longrightarrow> get_float_value L (PInt n) = Inr (Fin (of_int n))"
    by (auto simp add: get_float_value_def float_of_int_exact)
  show "get_float_value L (PStr (CHR ''='' # s)) = Inr (Fin 0)"
    by (simp add: get_float_value_def startswith_def)
  show "s \<noteq> [] \<Longrightarrow> \<not> startswith s ''='' \<Longrightarrow>
     get_float_value L (PStr s)
       = Inr (case float_str L (remove_commas s) of Some f \<Rightarrow> f | None \<Rightarrow> Fin 0)"
    by (simp add: get_float_value_def split: option.splits)
  show "get_float_value L (PInt 42) = Inr (Fin 42)"
    using i [of 42] by simp
  show "get_float_value L (PStr ''1,234'')
       = Inr (case float_str L ''1234'' of Some f \<Rightarrow> f | None \<Rightarrow> Fin 0)"
    by (simp add: get_float_value_def startswith_def remove_commas_def split: option.splits)
  show "get_float_value L (PStr ''=SUM(A1:A2)'') = Inr (Fin 0)"
    by (simp add: get_float_value_def startswith_def)
  show "get_float_value L PNone = Inr (Fin 0)" "get_float_value L (PStr []) = Inr (Fin 0)"
    by (simp_all add: get_float_value_def)
qed

text \<open>The only exception it lets out is the overflow of \<^verbatim>\<open>float\<close> on a large integer.\<close>

lemma get_float_value_raises_only:
  assumes "get_float_value L v = Inl e"
  shows "e = OverflowError \<and> (\<exists>n. v = PInt n \<and> 2 ^ 53 \<le> \<bar>n\<bar>)"
proof (cases v)
  case (PInt n)
  have "\<not> \<bar>n\<bar> < 2 ^ 53"
  proof
    assume "\<bar>n\<bar> < 2 ^ 53"
    then have "get_float_value L (PInt n) = Inr (Fin (of_int n))"
      by (auto simp add: get_float_value_def float_of_int_exact)
    with assms PInt show False by simp
  qed
  moreover have "e = OverflowError"
    using assms PInt
    by (auto simp add: get_float_value_def dest: float_of_int_error split: if_splits)
  ultimately show ?thesis using PInt by simp
next
  case (PBool b)
  then show ?thesis using assms float_of_int_exact [of 1]
    by (auto simp add: get_float_value_def split: if_splits)
qed (use assms in \<open>auto simp add: get_float_value_def split: if_splits option.splits\<close>)

lemma bit_length_power2: "bit_length (2 ^ k) = Suc k"
  by (induction k) (simp_all add: bit_length_pos bit_length_0)

lemma round53_power2:
  assumes "53 \<le> k"
  shows "round53 (2 ^ k) = 2 ^ k"
proof -
  have "52 \<le> k" using assms by simp
  then obtain j where k: "k = 52 + j" by (auto simp add: le_iff_add)
  have b: "bit_length (2 ^ k) - 53 = j" by (simp add: bit_length_power2 k)
  have q: "(2::nat) ^ k div 2 ^ j = 2 ^ 52" and r: "(2::nat) ^ k mod 2 ^ j = 0"
    by (simp_all add: k power_add)
  have e: "even ((2::nat) ^ 52)" by simp
  show ?thesis
    unfolding round53_def Let_def b q r using e by (simp add: k power_add)
qed

lemma float_of_int_power2:
  assumes "1024 \<le> k"
  shows "float_of_int (2 ^ k) = Inl OverflowError"
proof -
  have "nat \<bar>(2::int) ^ k\<bar> = 2 ^ k" by (simp add: nat_power_eq)
  moreover have "round53 (2 ^ k) = 2 ^ k" using assms by (intro round53_power2) simp
  moreover have "(2::nat) ^ 1024 \<le> 2 ^ k" using assms by (intro power_increasing) simp_all
  ultimately show ?thesis by (simp only: float_of_int_def Let_def if_True)
qed

text \<open>
  Claim C4. The function is not total: on the integer \<open>2 ^ 1024\<close>, a value an integer cell
  can hold, the conversion in the numeric branch raises \<^verbatim>\<open>OverflowError\<close>, which nothing
  in the function catches.
\<close>

theorem get_float_value_overflow:
  "get_float_value L (PInt (2 ^ 1024)) = Inl OverflowError"
  using float_of_int_power2 [of 1024] by (simp add: get_float_value_def)

section \<open>Date normalization\<close>











end
